theory Spec2Isabelle
  imports Main "HOL-Library.Sublist" "HOL-Library.AList"
begin

section \<open>Platform values and functions\<close>

text \<open>
  The program is browser JavaScript. Its own logic is embedded below; what it calls on
  the platform (\<^verbatim>\<open>Number\<close>, \<^verbatim>\<open>new Date\<close>, \<^verbatim>\<open>toLocaleDateString\<close>) is a parameter of the
  model, collected in the record \<open>platform\<close>.

  Numbers: identifiers, season counts and millisecond time values are integers and are
  modelled as \<open>int\<close> (exact, where a double is exact up to \<open>2 ^ 53\<close>). \<^verbatim>\<open>NaN\<close> is
  written out: a number that may be \<^verbatim>\<open>NaN\<close> is an \<open>int option\<close> with \<open>None\<close> for
  \<^verbatim>\<open>NaN\<close>, and the result of \<^verbatim>\<open>Number(string)\<close> is a \<open>jsnum\<close>, which also has a case
  for a number that is no integer (\<^verbatim>\<open>Number("1.5")\<close>, \<^verbatim>\<open>Number("Infinity")\<close>), named by
  the string JavaScript writes it as.
\<close>

datatype jsnum = NaN | IntNum int | NonInt string

datatype month_style = MonthShort | MonthLong

record platform =
  Number :: "string \<Rightarrow> jsnum"
  Date_parse :: "string \<Rightarrow> int option"
  Date_now :: int
  toLocaleDateString :: "month_style \<Rightarrow> int \<Rightarrow> string"

text \<open>
  \<open>Number pf s\<close> is \<^verbatim>\<open>Number(s)\<close>; \<open>Date_parse pf s\<close> is the time value of
  \<^verbatim>\<open>new Date(s)\<close> in milliseconds, \<open>None\<close> for an invalid date; \<open>Date_now pf\<close> is the
  time value of \<^verbatim>\<open>new Date()\<close>; \<open>toLocaleDateString pf st t\<close> is
  \<^verbatim>\<open>toLocaleDateString('en-US', {year: 'numeric', month: st, day: 'numeric'})\<close> of the
  valid date with time value \<open>t\<close>.
\<close>

text \<open>
  Decimal rendering of an integer, as \<^verbatim>\<open>String(n)\<close> and \<^verbatim>\<open>`${n}`\<close> give it (for a
  magnitude below \<open>10 ^ 21\<close>, where JavaScript does not yet switch to the exponent
  form).
\<close>

fun digits :: "nat \<Rightarrow> string" where
  "digits n = (if n < 10 then [''0123456789'' ! n]
               else digits (n div 10) @ [''0123456789'' ! (n mod 10)])"

declare digits.simps [simp del]

definition toString :: "int \<Rightarrow> string" where
  "toString n = (if n < 0 then CHR ''-'' # digits (nat (- n)) else digits (nat n))"

text \<open>
  A property value as the code passes it on: \<^verbatim>\<open>undefined\<close>, a string or a number, with
  the conversions JavaScript applies to it (\<^verbatim>\<open>if (v)\<close>, \<^verbatim>\<open>`${v}`\<close>).
\<close>

datatype jsval = Undefined | JStr string | JNum int

definition of_str :: "string option \<Rightarrow> jsval" where
  "of_str v = (case v of None \<Rightarrow> Undefined | Some s \<Rightarrow> JStr s)"

definition of_num :: "int option \<Rightarrow> jsval" where
  "of_num v = (case v of None \<Rightarrow> Undefined | Some n \<Rightarrow> JNum n)"

fun truthy :: "jsval \<Rightarrow> bool" where
  "truthy Undefined = False"
| "truthy (JStr s) = (s \<noteq> [])"
| "truthy (JNum n) = (n \<noteq> 0)"

fun ToString :: "jsval \<Rightarrow> string" where
  "ToString Undefined = ''undefined''"
| "ToString (JStr s) = s"
| "ToString (JNum n) = toString n"

text \<open>The calendar emoji U+1F4C5 of the source's string literals, as its UTF-8 bytes.\<close>

definition calendar :: string where
  "calendar = [CHR 0xF0, CHR 0x9F, CHR 0x93, CHR 0x85]"

section \<open>Data\<close>

text \<open>
  A podcast and a genre of \<^verbatim>\<open>data.js\<close>. The fields the code reads under a guard or a
  default (\<open>image\<close>, \<open>seasons\<close>, \<open>updated\<close>, \<open>shows\<close>) may be absent: \<open>None\<close> is
  \<^verbatim>\<open>undefined\<close>. A podcast's id and an entry of \<open>shows\<close> are a number or a string; a
  genre id is a number, in a genre and in a podcast's \<open>genres\<close>, as \<open>filterByGenre\<close>
  looks it up.
\<close>

datatype idval = IdNum int | IdStr string

text \<open>\<^verbatim>\<open>String(id)\<close>\<close>

fun id_String :: "idval \<Rightarrow> string" where
  "id_String (IdNum n) = toString n"
| "id_String (IdStr s) = s"

record podcast =
  p_id :: idval
  p_title :: string
  p_description :: string
  p_image :: "string option"
  p_seasons :: "int option"
  p_genres :: "int list"
  p_updated :: "string option"

record genre =
  g_id :: int
  g_title :: string
  g_description :: string
  g_shows :: "idval list option"

text \<open>
  An item handed to the card renderer or to the modal is one of the two; reading a
  property the object does not have gives \<^verbatim>\<open>undefined\<close>.
\<close>

datatype item = PodcastItem podcast | GenreItem genre

fun item_id :: "item \<Rightarrow> idval" where
  "item_id (PodcastItem p) = p_id p"
| "item_id (GenreItem g) = IdNum (g_id g)"

fun item_title :: "item \<Rightarrow> string" where
  "item_title (PodcastItem p) = p_title p"
| "item_title (GenreItem g) = g_title g"

fun item_description :: "item \<Rightarrow> string" where
  "item_description (PodcastItem p) = p_description p"
| "item_description (GenreItem g) = g_description g"

fun item_image :: "item \<Rightarrow> string option" where
  "item_image (PodcastItem p) = p_image p"
| "item_image (GenreItem g) = None"

fun item_seasons :: "item \<Rightarrow> int option" where
  "item_seasons (PodcastItem p) = p_seasons p"
| "item_seasons (GenreItem g) = None"

fun item_genres :: "item \<Rightarrow> int list option" where
  "item_genres (PodcastItem p) = Some (p_genres p)"
| "item_genres (GenreItem g) = None"

fun item_updated :: "item \<Rightarrow> string option" where
  "item_updated (PodcastItem p) = p_updated p"
| "item_updated (GenreItem g) = None"

fun item_shows :: "item \<Rightarrow> idval list option" where
  "item_shows (PodcastItem p) = None"
| "item_shows (GenreItem g) = g_shows g"

section \<open>The document\<close>

text \<open>
  A node is a text node, the parsed form of a markup string assigned to
  \<^verbatim>\<open>innerHTML\<close> (kept as the string), or an element with its tag, class name,
  attributes, inline style, children and listeners. A listener is the closure the code
  registers: \<open>OpenModal item type\<close> is \<^verbatim>\<open>() => openModal(item, type)\<close> of the card,
  \<open>ModalOpen show flag\<close> is \<^verbatim>\<open>() => this.open(show, flag)\<close> of the modal.
\<close>

datatype handler = OpenModal item string | ModalOpen item bool

datatype node =
    Text string
  | Html string
  | Elem (tag: string) (cls: string) (attributes: "(string \<times> string) list")
      (style: "(string \<times> string) list") (kids: "node list")
      (listeners: "(string \<times> handler) list")

text \<open>\<^verbatim>\<open>document.createElement(tag)\<close>\<close>

definition document_createElement :: "string \<Rightarrow> node" where
  "document_createElement t = Elem t [] [] [] [] []"

fun set_className :: "string \<Rightarrow> node \<Rightarrow> node" where
  "set_className c (Elem t _ a s k l) = Elem t c a s k l"
| "set_className c n = n"

fun setAttribute :: "string \<Rightarrow> string \<Rightarrow> node \<Rightarrow> node" where
  "setAttribute key v (Elem t c a s k l) = Elem t c (AList.update key v a) s k l"
| "setAttribute key v n = n"

fun set_style :: "string \<Rightarrow> string \<Rightarrow> node \<Rightarrow> node" where
  "set_style key v (Elem t c a s k l) = Elem t c a (AList.update key v s) k l"
| "set_style key v n = n"

fun set_kids :: "node list \<Rightarrow> node \<Rightarrow> node" where
  "set_kids ks (Elem t c a s _ l) = Elem t c a s ks l"
| "set_kids ks n = n"

fun appendChild :: "node \<Rightarrow> node \<Rightarrow> node" where
  "appendChild child (Elem t c a s k l) = Elem t c a s (k @ [child]) l"
| "appendChild child n = n"

fun addEventListener :: "string \<Rightarrow> handler \<Rightarrow> node \<Rightarrow> node" where
  "addEventListener ev h (Elem t c a s k l) = Elem t c a s k (l @ [(ev, h)])"
| "addEventListener ev h n = n"

text \<open>
  The children an element has after \<^verbatim>\<open>el.innerHTML = s\<close> and after
  \<^verbatim>\<open>el.textContent = s\<close>: the old children are gone, the empty string leaves none.
\<close>

definition innerHTML :: "string \<Rightarrow> node list" where
  "innerHTML s = (if s = [] then [] else [Html s])"

definition textContent :: "string \<Rightarrow> node list" where
  "textContent s = (if s = [] then [] else [Text s])"

section \<open>functions.js: formatDate\<close>

text \<open>
  \<^verbatim>\<open>new Date(isoString)\<close>: \<^verbatim>\<open>undefined\<close> gives an invalid date, a string is parsed by
  the platform.
\<close>

definition newDate :: "platform \<Rightarrow> string option \<Rightarrow> int option" where
  "newDate pf v = (case v of None \<Rightarrow> None | Some s \<Rightarrow> Date_parse pf s)"

text \<open>
  \<^verbatim>\<open>Math.floor((now - date) / (1000 * 60 * 60 * 24))\<close>, \<^verbatim>\<open>NaN\<close> for an invalid date.
  \<open>div\<close> on \<open>int\<close> rounds down, as \<^verbatim>\<open>Math.floor\<close> does; the double quotient has the
  same floor as long as the two dates are less than \<open>10 ^ 8\<close> days apart.
\<close>

definition day_diff :: "int \<Rightarrow> int option \<Rightarrow> int option" where
  "day_diff now date =
     (case date of None \<Rightarrow> None | Some d \<Rightarrow> Some ((now - d) div (1000 * 60 * 60 * 24)))"

text \<open>\<^verbatim>\<open>diff <= k\<close>: false when \<open>diff\<close> is \<^verbatim>\<open>NaN\<close>.\<close>

definition num_le :: "int option \<Rightarrow> int \<Rightarrow> bool" where
  "num_le v k = (case v of None \<Rightarrow> False | Some n \<Rightarrow> n \<le> k)"

definition num_str :: "int option \<Rightarrow> string" where
  "num_str v = (case v of None \<Rightarrow> ''NaN'' | Some n \<Rightarrow> toString n)"

text \<open>\<^verbatim>\<open>date.toLocaleDateString(...)\<close>: the string \<^verbatim>\<open>Invalid Date\<close> for an invalid date.\<close>

definition localeDate :: "platform \<Rightarrow> month_style \<Rightarrow> int option \<Rightarrow> string" where
  "localeDate pf st date =
     (case date of None \<Rightarrow> ''Invalid Date'' | Some d \<Rightarrow> toLocaleDateString pf st d)"

definition formatDate :: "platform \<Rightarrow> string option \<Rightarrow> string" where
  "formatDate pf isoString =
     (let date = newDate pf isoString;
          now = Date_now pf;
          diff = day_diff now date
      in if diff = Some 0 then ''Updated today''
         else if diff = Some 1 then ''Updated yesterday''
         else if num_le diff 30 then ''Updated '' @ num_str diff @ '' days ago''
         else ''Updated on '' @ localeDate pf MonthShort date)"

section \<open>functions.js: filterByGenre\<close>

text \<open>
  \<^verbatim>\<open>item.genres.includes(id)\<close> for the number \<open>id\<close>: the list holds integers, so only an
  integer is found in it.
\<close>

definition includes_num :: "int list \<Rightarrow> jsnum \<Rightarrow> bool" where
  "includes_num xs v = (case v of IntNum n \<Rightarrow> n \<in> set xs | _ \<Rightarrow> False)"

definition filterByGenre :: "platform \<Rightarrow> podcast list \<Rightarrow> string \<Rightarrow> podcast list" where
  "filterByGenre pf items genreId =
     (if genreId = ''all'' then items
      else let id = Number pf genreId
           in if id = NaN then items
              else filter (\<lambda>item. includes_num (p_genres item) id) items)"

section \<open>functions.js: the genre map, createElement, createTags, createCard, renderItems\<close>

text \<open>
  A JavaScript object used as a dictionary: its keys are strings (a number used as a key
  is converted), kept in insertion order. \<open>get_prop m k\<close> is \<^verbatim>\<open>m[k]\<close>.
\<close>

type_synonym dict = "(string \<times> string) list"

definition get_prop :: "dict \<Rightarrow> string \<Rightarrow> jsval" where
  "get_prop m k = of_str (map_of m k)"

text \<open>\<^verbatim>\<open>a || b\<close>\<close>

definition js_or :: "jsval \<Rightarrow> jsval \<Rightarrow> jsval" where
  "js_or a b = (if truthy a then a else b)"

text \<open>\<^verbatim>\<open>genres.forEach(g => { genreMap[g.id] = g.title; })\<close> on the empty object.\<close>

definition build_genreMap :: "genre list \<Rightarrow> dict" where
  "build_genreMap genres =
     foldl (\<lambda>m g. AList.update (toString (g_id g)) (g_title g) m) [] genres"

text \<open>The options bag of \<open>createElement\<close>; an absent key is \<open>Undefined\<close> or \<open>None\<close>.\<close>

record options =
  className :: jsval
  content :: jsval
  attrs :: "(string \<times> jsval) list option"
  children :: "node list option"
  events :: "(string \<times> handler) list option"

definition no_options :: options where
  "no_options = \<lparr> className = Undefined, content = Undefined, attrs = None,
                   children = None, events = None \<rparr>"

definition createElement :: "string \<Rightarrow> options \<Rightarrow> node" where
  "createElement t opts =
     (let el = document_createElement t;
          el = (if truthy (className opts) then set_className (ToString (className opts)) el
                else el);
          el = (if truthy (content opts) then set_kids (innerHTML (ToString (content opts))) el
                else el);
          el = (case attrs opts of None \<Rightarrow> el
                | Some kvs \<Rightarrow> foldl (\<lambda>e (key, v). setAttribute key (ToString v) e) el kvs);
          el = (case children opts of None \<Rightarrow> el
                | Some cs \<Rightarrow> foldl (\<lambda>e child. appendChild child e) el cs);
          el = (case events opts of None \<Rightarrow> el
                | Some hs \<Rightarrow> foldl (\<lambda>e (ev, h). addEventListener ev h e) el hs)
      in el)"

definition createTags :: "dict \<Rightarrow> int list option \<Rightarrow> node" where
  "createTags gm genreIds =
     (let ids = (case genreIds of None \<Rightarrow> [] | Some xs \<Rightarrow> xs);
          tagContainer = createElement ''div'' (no_options\<lparr>className := JStr ''tags''\<rparr>)
      in foldl (\<lambda>container i.
           let name = js_or (get_prop gm (toString i)) (JStr (''Genre '' @ toString i));
               tg = createElement ''span'' (no_options\<lparr>className := JStr ''tag'', content := name\<rparr>)
           in appendChild tg container) tagContainer ids)"

definition createCard :: "platform \<Rightarrow> dict \<Rightarrow> item \<Rightarrow> string \<Rightarrow> node" where
  "createCard pf gm item type =
     (if type = ''podcast'' then
        let cover = createElement ''div'' (no_options\<lparr>className := JStr ''cover'',
                      children := Some [createElement ''img'' (no_options\<lparr>attrs := Some
                        [(''src'', of_str (item_image item)),
                         (''alt'', JStr (item_title item @ '' Cover''))]\<rparr>)]\<rparr>);
            title = createElement ''h3'' (no_options\<lparr>content := JStr (item_title item)\<rparr>);
            meta = createElement ''p'' (no_options\<lparr>className := JStr ''meta'',
                     content := JStr (calendar @ '' '' @ ToString (of_num (item_seasons item))
                                      @ '' seasons'')\<rparr>);
            tags = createTags gm (item_genres item);
            updated = createElement ''p'' (no_options\<lparr>className := JStr ''updated'',
                        content := JStr (formatDate pf (item_updated item))\<rparr>)
        in createElement ''div'' (no_options\<lparr>className := JStr ''card'',
             children := Some [cover, title, meta, tags, updated],
             events := Some [(''click'', OpenModal item ''podcast'')]\<rparr>)
      else
        let title = createElement ''h3'' (no_options\<lparr>content := JStr (item_title item)\<rparr>);
            desc = createElement ''p'' (no_options\<lparr>content := JStr (item_description item)\<rparr>)
        in createElement ''div'' (no_options\<lparr>className := JStr ''card genre-card'',
             children := Some [title, desc],
             events := Some [(''click'', OpenModal item ''genre'')]\<rparr>))"

text \<open>
  \<open>renderItems\<close> on the children of the grid container: it returns the children the
  grid has afterwards.
\<close>

definition renderItems :: "platform \<Rightarrow> dict \<Rightarrow> item list \<Rightarrow> string \<Rightarrow> node list \<Rightarrow> node list" where
  "renderItems pf gm items type grid =
     (let grid = innerHTML ''''
      in if length items = 0
         then grid @ [createElement ''p'' (no_options\<lparr>content := JStr ''No items found.''\<rparr>)]
         else foldl (\<lambda>g item. g @ [createCard pf gm item type]) grid items)"

section \<open>modal.js: the class Modal\<close>

text \<open>
  The fields of a \<open>Modal\<close>: the two collections given to the constructor, whether the
  overlay element carries the class \<^verbatim>\<open>hidden\<close>, and the children of each region
  element. The section label is looked up with \<^verbatim>\<open>querySelector\<close> and used under
  \<^verbatim>\<open>if (this.sectionTitle)\<close>: \<open>None\<close> when the page has no such element.
\<close>

record modal =
  genreMap :: dict
  podcasts :: "podcast list"
  hidden :: bool
  modalCover :: "node list"
  modalTitle :: "node list"
  modalDesc :: "node list"
  modalGenres :: "node list"
  modalUpdated :: "node list"
  modalSeasons :: "node list"
  sectionTitle :: "node list option"

text \<open>
  A method either returns or throws; the fields written before a throw stay written,
  so both results carry the state.
\<close>

datatype error = TypeError

datatype outcome = Returned modal | Thrown error modal

fun state_of :: "outcome \<Rightarrow> modal" where
  "state_of (Returned m) = m"
| "state_of (Thrown e m) = m"

fun and_then :: "outcome \<Rightarrow> (modal \<Rightarrow> outcome) \<Rightarrow> outcome" where
  "and_then (Returned m) f = f m"
| "and_then (Thrown e m) f = Thrown e m"

definition Modal_close :: "modal \<Rightarrow> modal" where
  "Modal_close m = m\<lparr>hidden := True\<rparr>"

definition setCover :: "string option \<Rightarrow> string \<Rightarrow> modal \<Rightarrow> modal" where
  "setCover imageUrl title m =
     (let m = m\<lparr>modalCover := innerHTML ''''\<rparr>
      in if truthy (of_str imageUrl) then
           let img = document_createElement ''img'';
               img = setAttribute ''src'' (ToString (of_str imageUrl)) img;
               img = setAttribute ''alt'' (title @ '' Cover'') img;
               img = set_style ''width'' ''100%'' img;
               img = set_style ''height'' ''100%'' img;
               img = set_style ''objectFit'' ''cover'' img
           in m\<lparr>modalCover := modalCover m @ [img]\<rparr>
         else m)"

definition setTitle :: "string \<Rightarrow> modal \<Rightarrow> modal" where
  "setTitle title m = m\<lparr>modalTitle := textContent (ToString (js_or (JStr title) (JStr '''')))\<rparr>"

definition setDescription :: "string \<Rightarrow> modal \<Rightarrow> modal" where
  "setDescription description m =
     m\<lparr>modalDesc := textContent (ToString (js_or (JStr description) (JStr '''')))\<rparr>"

definition setUpdated :: "platform \<Rightarrow> string option \<Rightarrow> modal \<Rightarrow> modal" where
  "setUpdated pf updated m =
     (if \<not> truthy (of_str updated) then m\<lparr>modalUpdated := textContent ''''\<rparr>
      else m\<lparr>modalUpdated := textContent
             (calendar @ '' Last updated: '' @ localeDate pf MonthLong (newDate pf updated))\<rparr>)"

text \<open>
  \<^verbatim>\<open>genreIds.forEach\<close> throws a \<^verbatim>\<open>TypeError\<close> when \<open>genreIds\<close> is \<^verbatim>\<open>undefined\<close>, after
  the region has been emptied. \<open>genreTag\<close> is the tag the callback builds for one id;
  \<open>Number_key\<close> is the key that \<^verbatim>\<open>Number(id)\<close> names in \<^verbatim>\<open>this.genreMap[Number(id)]\<close>.
\<close>

definition Number_key :: "platform \<Rightarrow> idval \<Rightarrow> string" where
  "Number_key pf v =
     (case v of IdNum n \<Rightarrow> toString n
      | IdStr s \<Rightarrow> (case Number pf s of NaN \<Rightarrow> ''NaN'' | IntNum n \<Rightarrow> toString n
                    | NonInt r \<Rightarrow> r))"

definition genreTag :: "platform \<Rightarrow> dict \<Rightarrow> idval \<Rightarrow> node" where
  "genreTag pf gm i =
     (let tg = document_createElement ''span'';
          tg = set_className ''tag'' tg;
          tg = set_kids (textContent (ToString
                 (js_or (js_or (get_prop gm (id_String i)) (get_prop gm (Number_key pf i)))
                        (JStr (''Genre '' @ id_String i))))) tg
      in tg)"

definition setGenres :: "platform \<Rightarrow> idval list option \<Rightarrow> modal \<Rightarrow> outcome" where
  "setGenres pf genreIds m =
     (let m = m\<lparr>modalGenres := innerHTML ''''\<rparr>
      in case genreIds of
           None \<Rightarrow> Thrown TypeError m
         | Some ids \<Rightarrow> Returned (foldl (\<lambda>m i.
             m\<lparr>modalGenres := modalGenres m @ [genreTag pf (genreMap m) i]\<rparr>) m ids))"

definition setSeasons :: "int option \<Rightarrow> modal \<Rightarrow> modal" where
  "setSeasons seasons m =
     (let m = m\<lparr>modalSeasons := innerHTML ''''\<rparr>
      in if truthy (of_num seasons)
         then m\<lparr>modalSeasons := textContent (''Seasons: '' @ ToString (of_num seasons))\<rparr>
         else m)"

text \<open>\<^verbatim>\<open>genre.shows?.includes(v)\<close>: a number and a string are never the same value.\<close>

definition shows_includes :: "idval list option \<Rightarrow> idval \<Rightarrow> bool" where
  "shows_includes shows v = (case shows of None \<Rightarrow> False | Some xs \<Rightarrow> v \<in> set xs)"

definition showDiv :: "podcast \<Rightarrow> node" where
  "showDiv show =
     (let d = document_createElement ''div'';
          d = set_className ''show-item'' d;
          d = set_kids (textContent (p_title show)) d;
          d = addEventListener ''click'' (ModalOpen (PodcastItem show) False) d
      in d)"

definition setShowsForGenre :: "item \<Rightarrow> modal \<Rightarrow> modal" where
  "setShowsForGenre genre m =
     (let m = m\<lparr>modalSeasons := innerHTML ''''\<rparr>;
          showsContainer = document_createElement ''div'';
          showsContainer = set_className ''shows-list'' showsContainer;
          shows = filter (\<lambda>p. shows_includes (item_shows genre) (p_id p)
                              \<or> shows_includes (item_shows genre) (IdStr (id_String (p_id p))))
                    (podcasts m);
          showsContainer =
            (if length shows = 0
             then set_kids (textContent ''No shows available for this genre.'') showsContainer
             else foldl (\<lambda>c show. appendChild (showDiv show) c) showsContainer shows)
      in m\<lparr>modalSeasons := modalSeasons m @ [showsContainer]\<rparr>)"

definition setSectionTitle :: "string \<Rightarrow> modal \<Rightarrow> modal" where
  "setSectionTitle title m =
     (case sectionTitle m of None \<Rightarrow> m
      | Some _ \<Rightarrow> m\<lparr>sectionTitle := Some (textContent title)\<rparr>)"

definition openGenre :: "platform \<Rightarrow> item \<Rightarrow> modal \<Rightarrow> outcome" where
  "openGenre pf genre m =
     (let m = setCover (Some '''') '''' m;
          m = setTitle (item_title genre) m;
          m = setDescription (item_description genre) m
      in and_then (setGenres pf (Some [item_id genre]) m) (\<lambda>m.
           let m = setUpdated pf (Some '''') m;
               m = setShowsForGenre genre m
           in Returned (m\<lparr>hidden := False\<rparr>)))"

definition openPodcast :: "platform \<Rightarrow> item \<Rightarrow> modal \<Rightarrow> outcome" where
  "openPodcast pf podcast m =
     (let m = setCover (item_image podcast) (item_title podcast) m;
          m = setTitle (item_title podcast) m;
          m = setDescription (item_description podcast) m;
          m = setUpdated pf (item_updated podcast) m
      in and_then (setGenres pf (map_option (map IdNum) (item_genres podcast)) m) (\<lambda>m.
           let m = setSeasons (item_seasons podcast) m
           in Returned (m\<lparr>hidden := False\<rparr>)))"

definition Modal_open :: "platform \<Rightarrow> item \<Rightarrow> bool \<Rightarrow> modal \<Rightarrow> outcome" where
  "Modal_open pf data isGenre m =
     (let m = m\<lparr>modalSeasons := innerHTML ''''\<rparr>;
          m = setSectionTitle (if isGenre then ''Shows'' else ''Seasons'') m
      in if isGenre then openGenre pf data m else openPodcast pf data m)"

text \<open>\<open>openModal\<close> of functions.js, on the one modal of the page.\<close>

definition openModal :: "platform \<Rightarrow> item \<Rightarrow> string \<Rightarrow> modal \<Rightarrow> outcome" where
  "openModal pf item type m = Modal_open pf item (type = ''genre'') m"

text \<open>Running a registered closure, and a click on a node: its click listeners in turn.\<close>

fun fire :: "platform \<Rightarrow> handler \<Rightarrow> modal \<Rightarrow> outcome" where
  "fire pf (OpenModal item type) m = openModal pf item type m"
| "fire pf (ModalOpen item flag) m = Modal_open pf item flag m"

fun listeners_of :: "node \<Rightarrow> (string \<times> handler) list" where
  "listeners_of (Elem t c a s k l) = l"
| "listeners_of n = []"

definition click :: "platform \<Rightarrow> node \<Rightarrow> modal \<Rightarrow> outcome" where
  "click pf n m =
     foldl (\<lambda>out (ev, h). if ev = ''click'' then fire pf h (state_of out) else out)
       (Returned m) (listeners_of n)"

text \<open>
  The comparison the specification asks for between an entry of a genre's show list and
  a podcast's id, "tolerantly against both numeric and string id forms": the entry is
  the string form of the id, \<^verbatim>\<open>String(id)\<close>, or it is the numeric form of the id,
  \<^verbatim>\<open>Number(id)\<close>, whichever of the two forms the id itself is written in.
\<close>

definition tolerant_id_eq :: "platform \<Rightarrow> idval \<Rightarrow> idval \<Rightarrow> bool" where
  "tolerant_id_eq pf v i =
     (v = IdStr (id_String i) \<or>
      (case i of IdNum n \<Rightarrow> v = IdNum n
       | IdStr s \<Rightarrow> (case Number pf s of IntNum n \<Rightarrow> v = IdNum n | _ \<Rightarrow> False)))"

section \<open>A recorded platform\<close>

text \<open>
  The platform's answers on the inputs of the closed instances below, as a browser in
  UTC gives them at 2025-01-31T12:00:00Z; every other string is no number and no date.
\<close>

definition recorded_Number :: "string \<Rightarrow> jsnum" where
  "recorded_Number s =
     (if s = ''5'' then IntNum 5 else if s = ''2'' then IntNum 2
      else if s = '''' then IntNum 0 else if s = ''1.5'' then NonInt ''1.5'' else NaN)"

definition recorded_parse :: "string \<Rightarrow> int option" where
  "recorded_parse s = map_of
     [(''2025-01-31T12:00:00.000Z'', 1738324800000),
      (''2025-01-30T12:00:00.000Z'', 1738238400000),
      (''2025-01-16T12:00:00.000Z'', 1737028800000),
      (''2024-12-02T12:00:00.000Z'', 1733140800000),
      (''2025-02-03T12:00:00.000Z'', 1738584000000),
      (''2022-11-03T07:00:00.000Z'', 1667458800000)] s"

definition recorded_date :: "month_style \<Rightarrow> int \<Rightarrow> string" where
  "recorded_date st t =
     (if t = 1733140800000 then (case st of MonthShort \<Rightarrow> ''Dec 2, 2024'' | MonthLong \<Rightarrow> ''December 2, 2024'')
      else if t = 1738584000000 then (case st of MonthShort \<Rightarrow> ''Feb 3, 2025'' | MonthLong \<Rightarrow> ''February 3, 2025'')
      else if t = 1667458800000 then (case st of MonthShort \<Rightarrow> ''Nov 3, 2022'' | MonthLong \<Rightarrow> ''November 3, 2022'')
      else (case st of MonthShort \<Rightarrow> ''Jan 31, 2025'' | MonthLong \<Rightarrow> ''January 31, 2025''))"

definition recorded :: platform where
  "recorded = \<lparr> Number = recorded_Number, Date_parse = recorded_parse,
                Date_now = 1738324800000, toLocaleDateString = recorded_date \<rparr>"

section \<open>Sample data\<close>

text \<open>
  Three podcasts with the identifiers 3, 5 and 7 (the second without image, season count
  and timestamp), a genre whose show list holds 3 as a number and 5 as a string, and a
  modal on them that is closed and shows nothing yet.
\<close>

definition pod3 :: podcast where
  "pod3 = \<lparr> p_id = IdNum 3, p_title = ''Alpha'', p_description = ''First show'',
             p_image = Some ''alpha.png'', p_seasons = Some 2, p_genres = [5, 2],
             p_updated = Some ''2022-11-03T07:00:00.000Z'' \<rparr>"

definition pod5 :: podcast where
  "pod5 = \<lparr> p_id = IdNum 5, p_title = ''Beta'', p_description = ''Second show'',
             p_image = None, p_seasons = None, p_genres = [5], p_updated = None \<rparr>"

definition pod7 :: podcast where
  "pod7 = \<lparr> p_id = IdNum 7, p_title = ''Gamma'', p_description = ''Third show'',
             p_image = Some ''gamma.png'', p_seasons = Some 1, p_genres = [2],
             p_updated = Some ''2025-01-16T12:00:00.000Z'' \<rparr>"

definition genre5 :: genre where
  "genre5 = \<lparr> g_id = 5, g_title = ''Drama'', g_description = ''Stories'',
               g_shows = Some [IdNum 3, IdStr ''5''] \<rparr>"

definition modal0 :: modal where
  "modal0 = \<lparr> genreMap = build_genreMap [genre5], podcasts = [pod3, pod5, pod7],
               hidden = True, modalCover = [], modalTitle = [], modalDesc = [],
               modalGenres = [], modalUpdated = [], modalSeasons = [],
               sectionTitle = Some [] \<rparr>"

text \<open>
  The second podcast with its id written as the string "5", a genre whose show list
  holds 5 as a number, and a closed modal on the two.
\<close>

definition pod5s :: podcast where
  "pod5s = \<lparr> p_id = IdStr ''5'', p_title = ''Beta'', p_description = ''Second show'',
              p_image = None, p_seasons = None, p_genres = [5], p_updated = None \<rparr>"

definition genre5n :: genre where
  "genre5n = \<lparr> g_id = 5, g_title = ''Drama'', g_description = ''Stories'',
                g_shows = Some [IdNum 5] \<rparr>"

definition modal5s :: modal where
  "modal5s = \<lparr> genreMap = build_genreMap [genre5n], podcasts = [pod5s],
                hidden = True, modalCover = [], modalTitle = [], modalDesc = [],
                modalGenres = [], modalUpdated = [], modalSeasons = [],
                sectionTitle = Some [] \<rparr>"

section \<open>Facts about the platform record and the decimal rendering\<close>

lemma recorded_parse_values [simp]:
  "Date_parse recorded ''2025-01-31T12:00:00.000Z'' = Some 1738324800000"
  "Date_parse recorded ''2025-01-30T12:00:00.000Z'' = Some 1738238400000"
  "Date_parse recorded ''2025-01-16T12:00:00.000Z'' = Some 1737028800000"
  "Date_parse recorded ''2024-12-02T12:00:00.000Z'' = Some 1733140800000"
  "Date_parse recorded ''2025-02-03T12:00:00.000Z'' = Some 1738584000000"
  "Date_parse recorded ''2022-11-03T07:00:00.000Z'' = Some 1667458800000"
  by (simp_all add: recorded_def recorded_parse_def)

lemma recorded_now [simp]: "Date_now recorded = 1738324800000"
  by (simp add: recorded_def)

lemma recorded_toLocaleDateString [simp]: "toLocaleDateString recorded = recorded_date"
  by (simp add: recorded_def)

lemma recorded_Number_values [simp]:
  "Number recorded ''5'' = IntNum 5" "Number recorded ''abc'' = NaN"
  "Number recorded [] = IntNum 0"
  by (simp_all add: recorded_def recorded_Number_def)

lemma toString_values [simp]:
  "toString 15 = ''15''" "toString (- 3) = ''-3''" "toString 2 = ''2''"
  "toString 3 = ''3''" "toString 5 = ''5''" "toString 7 = ''7''"
  by (simp_all add: toString_def digits.simps)

section \<open>formatDate\<close>

text \<open>The branches of \<open>formatDate\<close> on a timestamp the platform can parse.\<close>

lemma formatDate_Some:
  "Date_parse pf ts = Some d \<Longrightarrow>
   formatDate pf (Some ts) =
     (let n = (Date_now pf - d) div 86400000
      in if n = 0 then ''Updated today'' else if n = 1 then ''Updated yesterday''
         else if n \<le> 30 then ''Updated '' @ toString n @ '' days ago''
         else ''Updated on '' @ toLocaleDateString pf MonthShort d)"
  by (simp add: formatDate_def newDate_def day_diff_def num_le_def num_str_def
      localeDate_def Let_def)

text \<open>
  Claim C4. For a timestamp with time value \<open>d\<close> and the whole-day difference
  \<open>n = \<lfloor>(now - d) / 86400000\<rfloor>\<close>: \<open>n = 0\<close> gives "Updated today", \<open>n = 1\<close> gives
  "Updated yesterday", \<open>n\<close> from 2 to 30 gives "Updated n days ago", and every larger
  \<open>n\<close> gives "Updated on " followed by the platform's en-US date with a short month.
\<close>

theorem formatDate_rules:
  assumes "Date_parse pf ts = Some d" and "n = (Date_now pf - d) div 86400000"
  shows "(n = 0 \<longrightarrow> formatDate pf (Some ts) = ''Updated today'') \<and>
         (n = 1 \<longrightarrow> formatDate pf (Some ts) = ''Updated yesterday'') \<and>
         (2 \<le> n \<and> n \<le> 30 \<longrightarrow>
            formatDate pf (Some ts) = ''Updated '' @ toString n @ '' days ago'') \<and>
         (30 < n \<longrightarrow>
            formatDate pf (Some ts) = ''Updated on '' @ toLocaleDateString pf MonthShort d)"
  using assms by (simp add: formatDate_Some Let_def)

text \<open>
  The four rules at work: at 2025-01-31T12:00Z, timestamps of the same moment, one day,
  15 days and 60 days earlier.
\<close>

theorem formatDate_rules_witness:
  "formatDate recorded (Some ''2025-01-31T12:00:00.000Z'') = ''Updated today'' \<and>
   formatDate recorded (Some ''2025-01-30T12:00:00.000Z'') = ''Updated yesterday'' \<and>
   formatDate recorded (Some ''2025-01-16T12:00:00.000Z'') = ''Updated 15 days ago'' \<and>
   formatDate recorded (Some ''2024-12-02T12:00:00.000Z'') = ''Updated on Dec 2, 2024''"
  using formatDate_rules [of recorded "''2025-01-31T12:00:00.000Z''" 1738324800000 0]
        formatDate_rules [of recorded "''2025-01-30T12:00:00.000Z''" 1738238400000 1]
        formatDate_rules [of recorded "''2025-01-16T12:00:00.000Z''" 1737028800000 15]
        formatDate_rules [of recorded "''2024-12-02T12:00:00.000Z''" 1733140800000 60]
  by (simp add: recorded_date_def)

text \<open>
  A timestamp later than now has a negative difference, and \<^verbatim>\<open>diff <= 30\<close> has no lower
  bound: the third branch takes it.
\<close>

lemma formatDate_negative:
  "Date_parse pf ts = Some d \<Longrightarrow> n = (Date_now pf - d) div 86400000 \<Longrightarrow> n < 0 \<Longrightarrow>
   formatDate pf (Some ts) = ''Updated '' @ toString n @ '' days ago''"
  by (simp add: formatDate_Some Let_def)

text \<open>
  Claim C1 says that a timestamp later than now gets the absolute form "Updated on
  <date>". The code does otherwise: three days ahead of now the difference is \<open>-3\<close>
  and the text is "Updated -3 days ago".
\<close>

theorem formatDate_future:
  "day_diff (Date_now recorded) (newDate recorded (Some ''2025-02-03T12:00:00.000Z''))
     = Some (- 3) \<and>
   formatDate recorded (Some ''2025-02-03T12:00:00.000Z'') = ''Updated -3 days ago'' \<and>
   formatDate recorded (Some ''2025-02-03T12:00:00.000Z'')
     \<noteq> ''Updated on '' @ toLocaleDateString recorded MonthShort 1738584000000"
  by (simp add: formatDate_Some newDate_def day_diff_def recorded_date_def)

section \<open>filterByGenre\<close>

text \<open>
  Claim C2 says that every token that is not a valid number leaves the list as it is
  and never gives an empty result. The empty token is no number, but \<^verbatim>\<open>Number("")\<close> is
  0 and not \<^verbatim>\<open>NaN\<close>: the code filters by the genre id 0 and, on podcasts without that
  genre, returns the empty list.
\<close>

theorem filterByGenre_blank_counterexample:
  "Number recorded '''' = IntNum 0 \<and>
   filterByGenre recorded [pod3, pod5, pod7] '''' = [] \<and>
   filterByGenre recorded [pod3, pod5, pod7] '''' \<noteq> [pod3, pod5, pod7]"
  by (simp add: filterByGenre_def includes_num_def pod3_def pod5_def pod7_def)

text \<open>
  Claim C2, amended. A token that \<^verbatim>\<open>Number\<close> converts to \<^verbatim>\<open>NaN\<close> leaves the list as it
  is: the same elements in the same order.
\<close>

theorem filterByGenre_malformed:
  "Number pf t = NaN \<Longrightarrow> filterByGenre pf items t = items"
  by (simp add: filterByGenre_def)

theorem filterByGenre_malformed_witness:
  "Number recorded ''abc'' = NaN \<and>
   filterByGenre recorded [pod3, pod5, pod7] ''abc'' = [pod3, pod5, pod7]"
  using filterByGenre_malformed [of recorded "''abc''" "[pod3, pod5, pod7]"] by simp

text \<open>
  Claim C3. For a token that reads as the genre id \<open>g\<close>, the result is the list of the
  items that have \<open>g\<close> among their genres: each element of the result has \<open>g\<close>, each
  item with \<open>g\<close> is in the result, and the result is a subsequence of the input.
\<close>

theorem filterByGenre_numeric:
  assumes "t \<noteq> ''all''" and "Number pf t = IntNum g"
  shows "filterByGenre pf items t = filter (\<lambda>item. g \<in> set (p_genres item)) items \<and>
         (\<forall>item \<in> set (filterByGenre pf items t). g \<in> set (p_genres item)) \<and>
         (\<forall>item \<in> set items. g \<in> set (p_genres item) \<longrightarrow>
            item \<in> set (filterByGenre pf items t)) \<and>
         subseq (filterByGenre pf items t) items"
proof -
  have eq: "filterByGenre pf items t = filter (\<lambda>item. g \<in> set (p_genres item)) items"
    using assms by (simp add: filterByGenre_def includes_num_def)
  show ?thesis unfolding eq by simp
qed

theorem filterByGenre_numeric_witness:
  "''5'' \<noteq> ''all'' \<and> Number recorded ''5'' = IntNum 5 \<and>
   filterByGenre recorded [pod3, pod5, pod7] ''5'' = [pod3, pod5] \<and>
   subseq [pod3, pod5] [pod3, pod5, pod7]"
  using filterByGenre_numeric [of "''5''" recorded 5 "[pod3, pod5, pod7]"]
  by (simp add: pod3_def pod5_def pod7_def)

section \<open>createCard and renderItems\<close>

lemma foldl_snoc_map: "foldl (\<lambda>acc x. acc @ [f x]) init xs = init @ map f xs"
  by (induction xs arbitrary: init) simp_all

lemma createCard_tag: "tag (createCard pf gm item type) = ''div''"
  by (simp add: createCard_def createElement_def no_options_def document_createElement_def
      Let_def)

text \<open>
  Claim C5. Whatever the grid held before, \<open>renderItems\<close> on the empty list leaves
  exactly the placeholder paragraph "No items found.", and on a non-empty list leaves
  exactly the cards of the items, one each and in the order of the list, and no
  placeholder.
\<close>

theorem renderItems_grid:
  "renderItems pf gm items type grid = renderItems pf gm items type [] \<and>
   renderItems pf gm [] type grid = [Elem ''p'' [] [] [] [Html ''No items found.''] []] \<and>
   (items \<noteq> [] \<longrightarrow>
      renderItems pf gm items type grid = map (\<lambda>item. createCard pf gm item type) items \<and>
      length (renderItems pf gm items type grid) = length items \<and>
      Elem ''p'' [] [] [] [Html ''No items found.''] []
        \<notin> set (renderItems pf gm items type grid))"
proof -
  have clear: "renderItems pf gm items type grid = renderItems pf gm items type []"
    by (simp add: renderItems_def)
  have empty: "renderItems pf gm [] type grid
                 = [Elem ''p'' [] [] [] [Html ''No items found.''] []]"
    by (simp add: renderItems_def createElement_def no_options_def document_createElement_def
        innerHTML_def)
  have cards: "renderItems pf gm items type grid
                 = map (\<lambda>item. createCard pf gm item type) items"
    if "items \<noteq> []"
    using that by (simp add: renderItems_def innerHTML_def foldl_snoc_map)
  have "Elem ''p'' [] [] [] [Html ''No items found.''] [] \<noteq> createCard pf gm item type"
    for item
  proof
    assume "Elem ''p'' [] [] [] [Html ''No items found.''] [] = createCard pf gm item type"
    then have "tag (Elem ''p'' [] [] [] [Html ''No items found.''] [])
                 = tag (createCard pf gm item type)"
      by simp
    then show False by (simp add: createCard_tag)
  qed
  then have "Elem ''p'' [] [] [] [Html ''No items found.''] []
               \<notin> set (map (\<lambda>item. createCard pf gm item type) items)"
    by auto
  with clear empty cards show ?thesis by simp
qed

theorem renderItems_grid_witness:
  "[PodcastItem pod3, PodcastItem pod5] \<noteq> [] \<and>
   renderItems recorded [] [PodcastItem pod3, PodcastItem pod5] ''podcast'' [Text ''old'']
     = [createCard recorded [] (PodcastItem pod3) ''podcast'',
        createCard recorded [] (PodcastItem pod5) ''podcast'']"
  using renderItems_grid [where pf = recorded and gm = "[]" and type = "''podcast''"
          and grid = "[Text ''old'']" and items = "[PodcastItem pod3, PodcastItem pod5]"]
  by auto

text \<open>
  Claim C9 says that a missing image, season count or timestamp leaves an empty or
  omitted element on the card. The card of \<open>pod5\<close>, which has none of the three, shows
  otherwise: the image element is there with the source "undefined", the meta line
  reads "undefined seasons" and the updated line reads "Updated on Invalid Date".
\<close>

theorem createCard_missing_fields:
  "createCard recorded (build_genreMap [genre5]) (PodcastItem pod5) ''podcast'' =
     Elem ''div'' ''card'' [] []
       [Elem ''div'' ''cover'' [] []
          [Elem ''img'' [] [(''src'', ''undefined''), (''alt'', ''Beta Cover'')] [] [] []] [],
        Elem ''h3'' [] [] [] [Html ''Beta''] [],
        Elem ''p'' ''meta'' [] [] [Html (calendar @ '' undefined seasons'')] [],
        Elem ''div'' ''tags'' [] [] [Elem ''span'' ''tag'' [] [] [Html ''Drama''] []] [],
        Elem ''p'' ''updated'' [] [] [Html ''Updated on Invalid Date''] []]
       [(''click'', OpenModal (PodcastItem pod5) ''podcast'')]"
  by (simp add: createCard_def createTags_def createElement_def no_options_def
      document_createElement_def Let_def pod5_def genre5_def build_genreMap_def
      get_prop_def of_str_def of_num_def js_or_def innerHTML_def formatDate_def newDate_def
      day_diff_def num_le_def localeDate_def calendar_def)

section \<open>Modal: close and the updated text\<close>

text \<open>
  Claim C10. \<open>close\<close> sets the class \<^verbatim>\<open>hidden\<close> and nothing else: every region keeps
  its content, and closing twice is closing once.
\<close>

theorem Modal_close_frame:
  "Modal_close m = m\<lparr>hidden := True\<rparr> \<and> hidden (Modal_close m) \<and>
   modalCover (Modal_close m) = modalCover m \<and> modalTitle (Modal_close m) = modalTitle m \<and>
   modalDesc (Modal_close m) = modalDesc m \<and> modalGenres (Modal_close m) = modalGenres m \<and>
   modalUpdated (Modal_close m) = modalUpdated m \<and>
   modalSeasons (Modal_close m) = modalSeasons m \<and>
   sectionTitle (Modal_close m) = sectionTitle m \<and>
   Modal_close (Modal_close m) = Modal_close m"
  by (simp add: Modal_close_def)

lemma setUpdated_nonempty:
  "ts \<noteq> [] \<Longrightarrow> modalUpdated (setUpdated pf (Some ts) m) =
     [Text (calendar @ '' Last updated: '' @ localeDate pf MonthLong (Date_parse pf ts))]"
  by (simp add: setUpdated_def of_str_def textContent_def newDate_def calendar_def)

text \<open>
  Claim C8 says that a non-empty timestamp gives exactly "Last updated: <date>". The
  text the code writes starts with the calendar emoji and a space.
\<close>

theorem setUpdated_no_prefix_counterexample:
  "modalUpdated (setUpdated recorded (Some ''2022-11-03T07:00:00.000Z'') modal0)
     \<noteq> [Text (''Last updated: '' @ toLocaleDateString recorded MonthLong 1667458800000)]"
  by (simp add: setUpdated_nonempty localeDate_def recorded_date_def calendar_def)

text \<open>
  Claim C8, amended. For an absent or empty timestamp the updated region is left with
  the empty text. For every non-empty timestamp its text is the calendar emoji, a
  space, "Last updated: " and what \<^verbatim>\<open>toLocaleDateString\<close> gives for the date with a
  long month (for a timestamp that parses, the platform's long date); no branch
  depends on the distance to today.
\<close>

theorem setUpdated_text:
  "(updated = None \<or> updated = Some [] \<longrightarrow> modalUpdated (setUpdated pf updated m) = []) \<and>
   (ts \<noteq> [] \<longrightarrow> modalUpdated (setUpdated pf (Some ts) m) =
      [Text (calendar @ '' Last updated: '' @ localeDate pf MonthLong (Date_parse pf ts))]) \<and>
   (ts \<noteq> [] \<and> Date_parse pf ts = Some d \<longrightarrow> modalUpdated (setUpdated pf (Some ts) m) =
      [Text (calendar @ '' Last updated: '' @ toLocaleDateString pf MonthLong d)])"
  by (auto simp add: setUpdated_nonempty localeDate_def)
     (auto simp: setUpdated_def of_str_def textContent_def)

theorem setUpdated_text_witness:
  "modalUpdated (setUpdated recorded None modal0) = [] \<and>
   modalUpdated (setUpdated recorded (Some []) modal0) = [] \<and>
   ''2022-11-03T07:00:00.000Z'' \<noteq> [] \<and>
   Date_parse recorded ''2022-11-03T07:00:00.000Z'' = Some 1667458800000 \<and>
   modalUpdated (setUpdated recorded (Some ''2022-11-03T07:00:00.000Z'') modal0) =
     [Text (calendar @ '' Last updated: November 3, 2022'')]"
  using setUpdated_text [of None recorded modal0 "''2022-11-03T07:00:00.000Z''" 1667458800000]
        setUpdated_text [of "Some []" recorded modal0 "''2022-11-03T07:00:00.000Z''"
          1667458800000]
  by (simp add: recorded_date_def)

section \<open>Modal: open\<close>

lemma setGenres_fold:
  "foldl (\<lambda>m i. m\<lparr>modalGenres := modalGenres m @ [genreTag pf (genreMap m) i]\<rparr>) m ids
     = m\<lparr>modalGenres := modalGenres m @ map (genreTag pf (genreMap m)) ids\<rparr>"
  by (induction ids arbitrary: m) simp_all

lemma setGenres_Some:
  "setGenres pf (Some ids) m
     = Returned (m\<lparr>modalGenres := map (genreTag pf (genreMap m)) ids\<rparr>)"
  by (simp add: setGenres_def setGenres_fold innerHTML_def)

lemma showsContainer_fold:
  "foldl (\<lambda>c show. appendChild (showDiv show) c) (Elem t c a s k l) ps
     = Elem t c a s (k @ map showDiv ps) l"
  by (induction ps arbitrary: k) simp_all

lemma setShowsForGenre_seasons:
  "setShowsForGenre genre m = m\<lparr>modalSeasons :=
     [Elem ''div'' ''shows-list'' [] []
        (let shows = filter (\<lambda>p. shows_includes (item_shows genre) (p_id p)
                                   \<or> shows_includes (item_shows genre) (IdStr (id_String (p_id p))))
                       (podcasts m)
         in if shows = [] then [Text ''No shows available for this genre.'']
            else map showDiv shows) []]\<rparr>"
  by (simp add: setShowsForGenre_def Let_def innerHTML_def document_createElement_def
      showsContainer_fold textContent_def)


lemma Modal_open_genre:
  "Modal_open pf (GenreItem g) True m = Returned
     (m\<lparr>sectionTitle := map_option (\<lambda>_. textContent ''Shows'') (sectionTitle m),
        modalCover := [],
        modalTitle := textContent (g_title g),
        modalDesc := textContent (g_description g),
        modalGenres := [genreTag pf (genreMap m) (IdNum (g_id g))],
        modalUpdated := [],
        modalSeasons := modalSeasons (setShowsForGenre (GenreItem g) m),
        hidden := False\<rparr>)"
  by (cases "sectionTitle m")
     (simp_all add: Modal_open_def openGenre_def setSectionTitle_def setCover_def
      setTitle_def setDescription_def setUpdated_def setGenres_Some
      setShowsForGenre_seasons innerHTML_def Let_def js_or_def textContent_def of_str_def)

text \<open>
  \<open>isGenre\<close> is documented as "True if data is a genre". Against that, a genre opened
  with \<open>isGenre\<close> false has no \<open>genres\<close> for \<^verbatim>\<open>_setGenres\<close> to iterate: the call throws
  before the overlay is shown.
\<close>

lemma Modal_open_genre_as_podcast:
  "Modal_open pf (GenreItem g) False m = Thrown TypeError
     (m\<lparr>modalSeasons := [],
        sectionTitle := map_option (\<lambda>_. textContent ''Seasons'') (sectionTitle m),
        modalCover := [],
        modalTitle := textContent (g_title g),
        modalDesc := textContent (g_description g),
        modalUpdated := [],
        modalGenres := []\<rparr>)"
  by (cases "sectionTitle m")
     (simp_all add: Modal_open_def openPodcast_def setSectionTitle_def setCover_def
      setTitle_def setDescription_def setUpdated_def setGenres_def
      innerHTML_def Let_def js_or_def textContent_def of_str_def)

lemma click_showDiv: "click pf (showDiv p) m = Modal_open pf (PodcastItem p) False m"
  by (simp add: click_def showDiv_def document_createElement_def)


lemma modal0_fields [simp]:
  "sectionTitle modal0 = Some []" "podcasts modal0 = [pod3, pod5, pod7]"
  "genreMap modal0 = build_genreMap [genre5]"
  by (simp_all add: modal0_def)


text \<open>
  What the shows area holds after a genre is opened: the podcasts that pass the test
  \<^verbatim>\<open>genre.shows?.includes(p.id) || genre.shows?.includes(String(p.id))\<close>, in the order of
  the collection, or the placeholder text.
\<close>

lemma genre_shows_rendered:
  assumes "g_shows g = Some xs"
  shows "modalSeasons (state_of (Modal_open pf (GenreItem g) True m)) =
           [Elem ''div'' ''shows-list'' [] []
              (let shown = filter (\<lambda>p. p_id p \<in> set xs \<or> IdStr (id_String (p_id p)) \<in> set xs)
                             (podcasts m)
               in if shown = [] then [Text ''No shows available for this genre.'']
                  else map showDiv shown) []]"
  using assms
  by (simp add: Modal_open_genre setShowsForGenre_seasons shows_includes_def Let_def)

text \<open>For a podcast whose id is a number the test is the tolerant comparison.\<close>

lemma numeric_id_match:
  "(IdNum n \<in> set xs \<or> IdStr (id_String (IdNum n)) \<in> set xs)
     = (\<exists>v \<in> set xs. tolerant_id_eq pf v (IdNum n))"
  by (auto simp: tolerant_id_eq_def)

lemma matches_3_5:
  assumes "distinct (map p_id ps)" and "set (map p_id ps) = {IdNum 3, IdNum 5, IdNum 7}"
  shows "filter (\<lambda>p. p_id p \<in> set [IdNum 3, IdStr ''5'']
                      \<or> IdStr (id_String (p_id p)) \<in> set [IdNum 3, IdStr ''5'']) ps
           = filter (\<lambda>p. p_id p = IdNum 3 \<or> p_id p = IdNum 5) ps"
    and "length (filter (\<lambda>p. p_id p = IdNum 3 \<or> p_id p = IdNum 5) ps) = 2"
proof -
  have ids: "p_id p = IdNum 3 \<or> p_id p = IdNum 5 \<or> p_id p = IdNum 7" if "p \<in> set ps" for p
    using that assms(2) by auto
  show "filter (\<lambda>p. p_id p \<in> set [IdNum 3, IdStr ''5'']
                     \<or> IdStr (id_String (p_id p)) \<in> set [IdNum 3, IdStr ''5'']) ps
           = filter (\<lambda>p. p_id p = IdNum 3 \<or> p_id p = IdNum 5) ps"
  proof (rule filter_cong [OF refl])
    fix p assume "p \<in> set ps"
    from ids [OF this]
    show "(p_id p \<in> set [IdNum 3, IdStr ''5'']
             \<or> IdStr (id_String (p_id p)) \<in> set [IdNum 3, IdStr ''5''])
            = (p_id p = IdNum 3 \<or> p_id p = IdNum 5)"
      by auto
  qed
  have "map p_id (filter (\<lambda>p. p_id p = IdNum 3 \<or> p_id p = IdNum 5) ps)
          = filter (\<lambda>i. i = IdNum 3 \<or> i = IdNum 5) (map p_id ps)"
    by (simp add: filter_map comp_def)
  moreover have "distinct (filter (\<lambda>i. i = IdNum 3 \<or> i = IdNum 5) (map p_id ps))"
    using assms(1) by simp
  moreover have "set (filter (\<lambda>i. i = IdNum 3 \<or> i = IdNum 5) (map p_id ps))
                   = {IdNum 3, IdNum 5}"
    using assms(2) by auto
  ultimately have "length (map p_id (filter (\<lambda>p. p_id p = IdNum 3 \<or> p_id p = IdNum 5) ps))
                     = card {IdNum 3, IdNum 5}"
    by (metis distinct_card)
  then show "length (filter (\<lambda>p. p_id p = IdNum 3 \<or> p_id p = IdNum 5) ps) = 2"
    by simp
qed

text \<open>
  The instance of the specification: with the show list \<open>[3, "5"]\<close> and a collection
  whose ids are the numbers 3, 5 and 7, exactly the entries of the podcasts 3 and 5 are
  rendered, in collection order; a click on an entry calls \<open>open\<close> with its podcast and
  \<open>isGenre\<close> false.
\<close>

lemma genre_shows_3_5:
  assumes "g_shows g = Some [IdNum 3, IdStr ''5'']"
    and "distinct (map p_id (podcasts m))"
    and "set (map p_id (podcasts m)) = {IdNum 3, IdNum 5, IdNum 7}"
    and "m' = state_of (Modal_open pf (GenreItem g) True m)"
    and "shown = filter (\<lambda>p. p_id p = IdNum 3 \<or> p_id p = IdNum 5) (podcasts m)"
  shows "modalSeasons m' = [Elem ''div'' ''shows-list'' [] [] (map showDiv shown) []]"
    and "length shown = 2"
    and "click pf (showDiv p) m' = Modal_open pf (PodcastItem p) False m'"
proof -
  have l: "length shown = 2"
    using matches_3_5(2) [OF assms(2,3)] assms(5) by simp
  then have ne: "shown \<noteq> []" by auto
  have "modalSeasons m' =
           [Elem ''div'' ''shows-list'' [] []
              (if shown = [] then [Text ''No shows available for this genre.'']
               else map showDiv shown) []]"
    using genre_shows_rendered [OF assms(1), of pf m] matches_3_5(1) [OF assms(2,3)]
      assms(4,5)
    by (simp add: Let_def)
  with ne show "modalSeasons m' = [Elem ''div'' ''shows-list'' [] [] (map showDiv shown) []]"
    by simp
  show "length shown = 2" by (rule l)
  show "click pf (showDiv p) m' = Modal_open pf (PodcastItem p) False m'"
    by (rule click_showDiv)
qed

lemma genre_shows_3_5_sample:
  "modalSeasons (state_of (Modal_open recorded (GenreItem genre5) True modal0))
     = [Elem ''div'' ''shows-list'' [] [] [showDiv pod3, showDiv pod5] []]"
proof -
  have a: "g_shows genre5 = Some [IdNum 3, IdStr ''5'']" by (simp add: genre5_def)
  have b: "distinct (map p_id (podcasts modal0))"
    "set (map p_id (podcasts modal0)) = {IdNum 3, IdNum 5, IdNum 7}"
    by (auto simp: pod3_def pod5_def pod7_def)
  have f: "filter (\<lambda>p. p_id p = IdNum 3 \<or> p_id p = IdNum 5) (podcasts modal0) = [pod3, pod5]"
    by (simp add: pod3_def pod5_def pod7_def)
  show ?thesis
    using genre_shows_3_5(1) [OF a b refl refl, of recorded] f by simp
qed

text \<open>
  Claim C7 says that the shows area lists the podcasts whose id matches an entry of
  the genre's show list under tolerant numeric/string comparison. The code compares an
  entry with \<^verbatim>\<open>p.id\<close> and with \<^verbatim>\<open>String(p.id)\<close> only, never with \<^verbatim>\<open>Number(p.id)\<close>: the
  podcast whose id is the string "5" matches the entry 5 of the show list under the
  tolerant comparison, and the genre view still shows "No shows available for this
  genre.".
\<close>

theorem genre_shows_string_id:
  "tolerant_id_eq recorded (IdNum 5) (p_id pod5s) \<and>
   g_shows genre5n = Some [IdNum 5] \<and> podcasts modal5s = [pod5s] \<and>
   modalSeasons (state_of (Modal_open recorded (GenreItem genre5n) True modal5s))
     = [Elem ''div'' ''shows-list'' [] [] [Text ''No shows available for this genre.''] []]"
proof -
  have a: "g_shows genre5n = Some [IdNum 5]" by (simp add: genre5n_def)
  have b: "podcasts modal5s = [pod5s]" by (simp add: modal5s_def)
  have t: "tolerant_id_eq recorded (IdNum 5) (p_id pod5s)"
    by (simp add: tolerant_id_eq_def pod5s_def)
  have "modalSeasons (state_of (Modal_open recorded (GenreItem genre5n) True modal5s))
     = [Elem ''div'' ''shows-list'' [] [] [Text ''No shows available for this genre.''] []]"
    using genre_shows_rendered [OF a, of recorded modal5s] b
    by (simp add: pod5s_def Let_def)
  with a b t show ?thesis by simp
qed

end
